theory Spec2Isabelle
  imports Complex_Main "HOL-Library.AList"
begin

section \<open>Python values\<close>

text \<open>
  The values that travel through the pipeline are what the remote API's JSON decodes
  to: \<open>None\<close>, booleans, integers, floats, strings, lists and dictionaries with
  string keys. A dictionary is an association list in insertion order; lookups take the
  first entry of a key.

  Python floats are modelled by the rational numbers they denote: rounding to 53 bits,
  the overflow of \<open>float()\<close> on integers beyond the double range, infinities and NaN
  are outside the model. Strings are lists of 8-bit characters; the character classes
  below are the ASCII ones.
\<close>

datatype pyval =
    VNone
  | VBool bool
  | VInt int
  | VFloat rat
  | VStr string
  | VList "pyval list"
  | VDict "(string \<times> pyval) list"

type_synonym pydict = "(string \<times> pyval) list"

text \<open>The exceptions the modelled code can raise; each carries its message.\<close>

datatype exn =
    OpenReviewClientError string
  | AttributeError string
  | TypeError string
  | ValueError string
  | ZeroDivisionError string
  | HTTPError string
  | RemoteError string

fun exn_str :: "exn \<Rightarrow> string" where
  "exn_str (OpenReviewClientError m) = m"
| "exn_str (AttributeError m) = m"
| "exn_str (TypeError m) = m"
| "exn_str (ValueError m) = m"
| "exn_str (ZeroDivisionError m) = m"
| "exn_str (HTTPError m) = m"
| "exn_str (RemoteError m) = m"

text \<open>\<open>bool(v)\<close>: the truth value Python gives an object in \<open>if v\<close> and \<open>a or b\<close>.\<close>

fun py_truthy :: "pyval \<Rightarrow> bool" where
  "py_truthy VNone = False"
| "py_truthy (VBool b) = b"
| "py_truthy (VInt n) = (n \<noteq> 0)"
| "py_truthy (VFloat r) = (r \<noteq> 0)"
| "py_truthy (VStr s) = (s \<noteq> [])"
| "py_truthy (VList xs) = (xs \<noteq> [])"
| "py_truthy (VDict kvs) = (kvs \<noteq> [])"

definition py_or :: "pyval \<Rightarrow> pyval \<Rightarrow> pyval" where
  "py_or a b = (if py_truthy a then a else b)"

text \<open>\<open>d.get(k)\<close> and \<open>d.get(k, default)\<close>.\<close>

definition dict_get :: "pydict \<Rightarrow> string \<Rightarrow> pyval" where
  "dict_get d k = (case map_of d k of None \<Rightarrow> VNone | Some v \<Rightarrow> v)"

definition dict_get_default :: "pydict \<Rightarrow> string \<Rightarrow> pyval \<Rightarrow> pyval" where
  "dict_get_default d k dflt = (case map_of d k of None \<Rightarrow> dflt | Some v \<Rightarrow> v)"


subsection \<open>Strings\<close>

definition is_digit :: "char \<Rightarrow> bool" where
  "is_digit c = (c \<in> set ''0123456789'')"

text \<open>The ASCII characters \<open>str.strip()\<close> removes: tab, newline, vertical tab, form
  feed, carriage return, the four separators 28 to 31 and the space.\<close>

definition is_space :: "char \<Rightarrow> bool" where
  "is_space c = (c \<in> set [CHR 0x09, CHR 0x0A, CHR 0x0B, CHR 0x0C, CHR 0x0D,
                             CHR 0x1C, CHR 0x1D, CHR 0x1E, CHR 0x1F, CHR 0x20])"

definition py_strip :: "string \<Rightarrow> string" where
  "py_strip s = rev (dropWhile is_space (rev (dropWhile is_space s)))"

definition py_upper_char :: "char \<Rightarrow> char" where
  "py_upper_char c =
     (if 97 \<le> (of_char c :: nat) \<and> (of_char c :: nat) \<le> 122
      then char_of (of_char c - 32 :: nat) else c)"

definition py_lower_char :: "char \<Rightarrow> char" where
  "py_lower_char c =
     (if 65 \<le> (of_char c :: nat) \<and> (of_char c :: nat) \<le> 90
      then char_of (of_char c + 32 :: nat) else c)"

definition py_upper :: "string \<Rightarrow> string" where
  "py_upper s = map py_upper_char s"

definition py_lower :: "string \<Rightarrow> string" where
  "py_lower s = map py_lower_char s"

fun startswith :: "string \<Rightarrow> string \<Rightarrow> bool" where
  "startswith s [] = True"
| "startswith [] (p # ps) = False"
| "startswith (c # cs) (p # ps) = (c = p \<and> startswith cs ps)"

text \<open>\<open>sub in s\<close> on strings: \<open>sub\<close> occurs in \<open>s\<close> as a contiguous run.\<close>

fun py_contains :: "string \<Rightarrow> string \<Rightarrow> bool" where
  "py_contains [] sub = (sub = [])"
| "py_contains (c # cs) sub = (startswith (c # cs) sub \<or> py_contains cs sub)"

text \<open>Decimal rendering of integers, as \<open>str(n)\<close> and the f-strings produce it.\<close>

definition digit_char :: "nat \<Rightarrow> char" where
  "digit_char d = char_of (48 + d)"

function str_nat :: "nat \<Rightarrow> string" where
  "str_nat n = (if n < 10 then [digit_char n] else str_nat (n div 10) @ [digit_char (n mod 10)])"
  by pat_completeness auto
termination
  by (relation "measure id") auto

declare str_nat.simps [simp del]

definition str_int :: "int \<Rightarrow> string" where
  "str_int i = (if i < 0 then CHR ''-'' # str_nat (nat (- i)) else str_nat (nat i))"

text \<open>
  \<open>str(v)\<close>. A string is its own \<open>str\<close>; \<open>None\<close>, booleans and integers have fixed
  renderings. The rendering of floats, lists and dictionaries (the interpreter's
  \<open>repr\<close>, with its shortest round-trip float digits and its quoting rules) is not part
  of this program and is taken as the parameter \<open>sf\<close>.
\<close>

fun py_str :: "(pyval \<Rightarrow> string) \<Rightarrow> pyval \<Rightarrow> string" where
  "py_str sf (VStr s) = s"
| "py_str sf VNone = ''None''"
| "py_str sf (VBool b) = (if b then ''True'' else ''False'')"
| "py_str sf (VInt n) = str_int n"
| "py_str sf v = sf v"

section \<open>Score parser (parsing.py)\<close>

text \<open>
  \<open>re.search(r'-?\d+\.?\d*', s)\<close>. \<open>match_digits_frac\<close> is \<open>\d+\.?\d*\<close> anchored at
  the start of its argument: \<open>\d+\<close> takes the whole run of digits and fails on an
  empty one, the greedy \<open>\.?\<close> takes a dot when there is one and \<open>\d*\<close> the digits
  after it. \<open>re_match_number\<close> is the whole pattern anchored: the greedy \<open>-?\<close> takes
  a minus sign when there is one; when no digit follows it, giving the sign back does
  not help, since a minus sign is not a digit. \<open>re_search_number\<close> tries the start
  positions from left to right and returns \<open>match.group()\<close> of the first that matches.
\<close>

definition match_digits_frac :: "string \<Rightarrow> string option" where
  "match_digits_frac r =
     (let ds = takeWhile is_digit r;
          r2 = dropWhile is_digit r
      in if ds = [] then None
         else Some (ds @ (case r2 of
                            c # t \<Rightarrow> if c = CHR ''.'' then c # takeWhile is_digit t else []
                          | [] \<Rightarrow> [])))"

definition re_match_number :: "string \<Rightarrow> string option" where
  "re_match_number s =
     (case s of
        c # t \<Rightarrow> if c = CHR ''-'' then map_option ((#) c) (match_digits_frac t)
                 else match_digits_frac s
      | [] \<Rightarrow> None)"

fun re_search_number :: "string \<Rightarrow> string option" where
  "re_search_number [] = None"
| "re_search_number (c # cs) =
     (case re_match_number (c # cs) of
        Some m \<Rightarrow> Some m
      | None \<Rightarrow> re_search_number cs)"

text \<open>
  \<open>float(s)\<close> on a string, restricted to plain decimal literals (an optional minus
  sign, digits, an optional dot and digits, at least one digit overall); every other
  string is \<open>None\<close> here, standing for \<open>ValueError\<close>. Python's \<open>float\<close> accepts more
  (exponents, surrounding blanks, \<open>inf\<close>, \<open>nan\<close>), none of which the pattern above can
  produce.
\<close>

definition digit_val :: "char \<Rightarrow> nat" where
  "digit_val c = of_char c - 48"

definition nat_of_digits :: "string \<Rightarrow> nat" where
  "nat_of_digits ds = foldl (\<lambda>a c. 10 * a + digit_val c) 0 ds"

definition float_unsigned :: "string \<Rightarrow> rat option" where
  "float_unsigned r =
     (let ds = takeWhile is_digit r;
          r2 = dropWhile is_digit r;
          fs = (case r2 of c # t \<Rightarrow> t | [] \<Rightarrow> [])
      in if (r2 = [] \<or> (hd r2 = CHR ''.'' \<and> list_all is_digit fs)) \<and> (ds \<noteq> [] \<or> fs \<noteq> [])
         then Some (of_nat (nat_of_digits ds) + of_nat (nat_of_digits fs) / 10 ^ length fs)
         else None)"

definition py_float :: "string \<Rightarrow> rat option" where
  "py_float s =
     (case s of
        c # t \<Rightarrow> if c = CHR ''-'' then map_option uminus (float_unsigned t)
                 else float_unsigned s
      | [] \<Rightarrow> None)"

text \<open>\<open>isinstance(text, (int, float))\<close>; \<open>bool\<close> is a subclass of \<open>int\<close>.\<close>

fun is_numeric :: "pyval \<Rightarrow> bool" where
  "is_numeric (VBool b) = True"
| "is_numeric (VInt n) = True"
| "is_numeric (VFloat r) = True"
| "is_numeric v = False"

fun numeric_value :: "pyval \<Rightarrow> rat" where
  "numeric_value (VBool b) = (if b then 1 else 0)"
| "numeric_value (VInt n) = of_int n"
| "numeric_value (VFloat r) = r"
| "numeric_value v = 0"

definition parse_score :: "(pyval \<Rightarrow> string) \<Rightarrow> pyval \<Rightarrow> rat option" where
  "parse_score sf text =
     (if text = VNone then None
      else if is_numeric text then Some (numeric_value text)
      else let text_str = py_strip (py_str sf text)
           in if text_str = [] then None
              else case re_search_number text_str of
                     Some m \<Rightarrow> (case py_float m of Some x \<Rightarrow> Some x | None \<Rightarrow> None)
                   | None \<Rightarrow> None)"




section \<open>Configuration and venue resolver (config.py)\<close>

text \<open>
  \<open>VENUE_MAPPINGS\<close> is a dictionary literal; iterating over \<open>.items()\<close> visits its
  entries in the order written, so it is an association list.
\<close>

record venue_config =
  display_name :: string
  aliases :: "string list"
  patterns :: "string list"
  years_available :: "int list"
  source :: "string option"

definition VENUE_MAPPINGS :: "(string \<times> venue_config) list" where
  "VENUE_MAPPINGS =
     [(''ICLR'',
       \<lparr>display_name = ''ICLR'', aliases = [''iclr''],
        patterns = [''ICLR.cc/{year}/Conference''],
        years_available = [2018..2026], source = None\<rparr>),
      (''NeurIPS'',
       \<lparr>display_name = ''NeurIPS'', aliases = [''neurips'', ''nips'', ''NIPS''],
        patterns = [''NeurIPS.cc/{year}/Conference'', ''NIPS.cc/{year}/Conference''],
        years_available = [2019..2026], source = None\<rparr>),
      (''ICML'',
       \<lparr>display_name = ''ICML'', aliases = [''icml''],
        patterns = [''ICML.cc/{year}/Conference''],
        years_available = [2023..2026], source = None\<rparr>),
      (''AAAI'',
       \<lparr>display_name = ''AAAI'', aliases = [''aaai''],
        patterns = [''AAAI.org/{year}/Conference''],
        years_available = [2021..2025], source = Some ''web''\<rparr>)]"



definition API_RETRY_MAX :: nat where
  "API_RETRY_MAX = 3"

definition API_RETRY_DELAY_BASE :: nat where
  "API_RETRY_DELAY_BASE = 2"

text \<open>
  \<open>template.format(year=year)\<close> for templates whose only replacement field is \<open>{year}\<close>:
  each occurrence is replaced by \<open>str(year)\<close>, passed here already rendered (the decimal
  digits of an integer year, or the year string itself).
\<close>

function format_year :: "string \<Rightarrow> string \<Rightarrow> string" where
  "format_year [] y = []"
| "format_year (c # cs) y =
     (if startswith (c # cs) ''{year}'' then y @ format_year (drop 5 cs) y
      else c # format_year cs y)"
  by pat_completeness auto
termination
  by (relation "measure (\<lambda>(s, y). length s)") auto

fun candidates_loop :: "string \<Rightarrow> int \<Rightarrow> (string \<times> venue_config) list \<Rightarrow> string list" where
  "candidates_loop venue_name year [] = [venue_name]"
| "candidates_loop venue_name year ((key, config) # rest) =
     (let venue_upper = py_strip (py_upper venue_name)
      in if venue_upper = py_upper key \<or>
            py_lower venue_name \<in> set (map py_lower (aliases config))
         then map (\<lambda>p. format_year p (str_int year)) (patterns config)
         else candidates_loop venue_name year rest)"

definition get_venue_id_candidates :: "string \<Rightarrow> int \<Rightarrow> string list" where
  "get_venue_id_candidates venue_name year = candidates_loop venue_name year VENUE_MAPPINGS"




section \<open>Review scores (parsing.py, openreview_client.py)\<close>

text \<open>
  A reply is a JSON object of the API; its \<open>content\<close> entry, when present, is a JSON
  object. \<open>reply.get('content', {})\<close> is \<open>content_of\<close>.
\<close>

record reply =
  reply_content :: "pydict option"

definition content_of :: "reply \<Rightarrow> pydict" where
  "content_of r = (case reply_content r of None \<Rightarrow> [] | Some d \<Rightarrow> d)"

text \<open>
  The statistics dictionary that both aggregators return, as a record of its eight
  entries. \<open>max\<close> and \<open>min\<close> raise on an empty sequence and the division raises on a
  zero length; the conditional expressions of the source guard them.
\<close>

record review_stats =
  review_count :: nat
  scored_review_count :: nat
  scores :: "rat list"
  confidences :: "rat list"
  max_score :: "rat option"
  min_score :: "rat option"
  avg_score :: "rat option"
  avg_confidence :: "rat option"

definition py_max :: "rat list \<Rightarrow> exn + rat" where
  "py_max xs = (case xs of [] \<Rightarrow> Inl (ValueError ''max() arg is an empty sequence'')
                | x # r \<Rightarrow> Inr (foldl max x r))"

definition py_min :: "rat list \<Rightarrow> exn + rat" where
  "py_min xs = (case xs of [] \<Rightarrow> Inl (ValueError ''min() arg is an empty sequence'')
                | x # r \<Rightarrow> Inr (foldl min x r))"

definition py_truediv :: "rat \<Rightarrow> nat \<Rightarrow> exn + rat" where
  "py_truediv a n = (if n = 0 then Inl (ZeroDivisionError ''division by zero'')
                     else Inr (a / of_nat n))"

text \<open>\<open>e if c else None\<close>: the expression \<open>e\<close> is evaluated only when \<open>c\<close> holds.\<close>

definition if_else_None :: "bool \<Rightarrow> exn + rat \<Rightarrow> exn + rat option" where
  "if_else_None c e = (if c then (case e of Inl x \<Rightarrow> Inl x | Inr v \<Rightarrow> Inr (Some v)) else Inr None)"

definition stats_dict :: "nat \<Rightarrow> rat list \<Rightarrow> rat list \<Rightarrow> exn + review_stats" where
  "stats_dict n scs confs =
     (case if_else_None (scs \<noteq> []) (py_max scs) of Inl e \<Rightarrow> Inl e | Inr mx \<Rightarrow>
      case if_else_None (scs \<noteq> []) (py_min scs) of Inl e \<Rightarrow> Inl e | Inr mn \<Rightarrow>
      case if_else_None (scs \<noteq> []) (py_truediv (sum_list scs) (length scs)) of Inl e \<Rightarrow> Inl e | Inr av \<Rightarrow>
      case if_else_None (confs \<noteq> []) (py_truediv (sum_list confs) (length confs)) of Inl e \<Rightarrow> Inl e | Inr ac \<Rightarrow>
      Inr \<lparr>review_count = n, scored_review_count = length scs, scores = scs,
           confidences = confs, max_score = mx, min_score = mn, avg_score = av,
           avg_confidence = ac\<rparr>)"

subsection \<open>parsing.py: \<open>extract_review_scores\<close> and \<open>compute_score_stats\<close>\<close>

text \<open>\<open>if isinstance(value, dict) and "value" in value: value = value["value"]\<close>.\<close>

definition unwrap_value :: "pyval \<Rightarrow> pyval" where
  "unwrap_value v =
     (case v of
        VDict d \<Rightarrow> (case map_of d ''value'' of Some w \<Rightarrow> w | None \<Rightarrow> v)
      | _ \<Rightarrow> v)"





subsection \<open>openreview_client.py: \<open>is_review_reply\<close> and \<open>extract_scores_from_replies\<close>\<close>

definition REVIEW_INDICATOR_KEYS :: "string list" where
  "REVIEW_INDICATOR_KEYS =
     [''rating'', ''recommendation'', ''soundness'', ''contribution'', ''summary'',
      ''weaknesses'', ''strengths_and_weaknesses'', ''quality'', ''clarity'',
      ''significance'', ''originality'', ''confidence'', ''questions'', ''limitations'',
      ''Overall Recommendation'', ''overall_recommendation'']"

definition is_review_reply :: "reply \<Rightarrow> bool" where
  "is_review_reply r =
     (let content = content_of r
      in if content = [] then False
         else let content_keys = set (map fst content);
                  matches = card (content_keys \<inter> set REVIEW_INDICATOR_KEYS)
              in matches \<ge> 1)"

text \<open>
  The rating is the first truthy value of the \<open>or\<close> chain over five field names (the
  last one when none is truthy). \<open>if isinstance(x, dict): x = x.get('value', '')\<close> is
  \<open>get_value\<close>.
\<close>

definition reply_rating :: "pydict \<Rightarrow> pyval" where
  "reply_rating content =
     py_or (py_or (py_or (py_or (dict_get content ''rating'')
                                (dict_get content ''recommendation''))
                         (dict_get content ''score''))
                  (dict_get content ''Overall Recommendation''))
           (dict_get content ''overall_recommendation'')"

definition get_value :: "pyval \<Rightarrow> pyval" where
  "get_value x = (case x of VDict d \<Rightarrow> dict_get_default d ''value'' (VStr []) | _ \<Rightarrow> x)"

definition reply_score :: "(pyval \<Rightarrow> string) \<Rightarrow> pydict \<Rightarrow> rat option" where
  "reply_score sf content =
     (let rating = reply_rating content
      in if py_truthy rating then parse_score sf (get_value rating) else None)"

definition reply_confidence :: "(pyval \<Rightarrow> string) \<Rightarrow> pydict \<Rightarrow> rat option" where
  "reply_confidence sf content =
     (let confidence = dict_get content ''confidence''
      in if py_truthy confidence then parse_score sf (get_value confidence) else None)"

fun replies_loop ::
  "(pyval \<Rightarrow> string) \<Rightarrow> reply list \<Rightarrow> rat list \<Rightarrow> rat list \<Rightarrow> nat \<Rightarrow> rat list \<times> rat list \<times> nat" where
  "replies_loop sf [] scs confs n = (scs, confs, n)"
| "replies_loop sf (r # rest) scs confs n =
     (if \<not> is_review_reply r then replies_loop sf rest scs confs n
      else let n = n + 1;
               content = content_of r;
               scs = (case reply_score sf content of Some s \<Rightarrow> scs @ [s] | None \<Rightarrow> scs);
               confs = (case reply_confidence sf content of Some c \<Rightarrow> confs @ [c] | None \<Rightarrow> confs)
           in replies_loop sf rest scs confs n)"

definition extract_scores_from_replies :: "(pyval \<Rightarrow> string) \<Rightarrow> reply list \<Rightarrow> exn + review_stats" where
  "extract_scores_from_replies sf replies =
     (let (scs, confs, n) = replies_loop sf replies [] [] 0
      in stats_dict n scs confs)"




section \<open>The remote world\<close>

text \<open>
  The network and the \<open>openreview\<close> and \<open>requests\<close> libraries are outside the program.
  Their behaviour is a parameter: a record of operations on a world state of an
  arbitrary type \<open>'s\<close>, each returning its result or the exception it raises together
  with the next world state, so that two calls of the same request may answer
  differently. \<open>time.sleep\<close> is a step of the world as well.

  A note is an object of the API: \<open>id\<close> is always there; \<open>forum\<close>, \<open>content\<close> and
  \<open>details\<close> may be missing attributes (\<open>hasattr\<close>). \<open>note_details\<close> is \<open>None\<close> for a
  missing or falsy \<open>details\<close>, \<open>Some None\<close> for a mapping without a \<open>replies\<close> key and
  \<open>Some (Some rs)\<close> for one with the replies \<open>rs\<close>.
\<close>

record or_note =
  note_id :: string
  note_forum :: "string option"
  note_content :: "pydict option"
  note_details :: "reply list option option"

record response =
  status_code :: int
  json_body :: "exn + pyval"

datatype client = ClientV2 | ClientV1

record 's remote =
  requests_get :: "string \<Rightarrow> 's \<Rightarrow> (exn + response) \<times> 's"
  new_client_v2 :: "'s \<Rightarrow> (exn + unit) \<times> 's"
  new_client_v1 :: "'s \<Rightarrow> (exn + unit) \<times> 's"
  get_all_notes :: "client \<Rightarrow> string \<Rightarrow> 's \<Rightarrow> (exn + or_note list) \<times> 's"
  has_iterget_notes :: bool
  iterget_notes :: "string \<Rightarrow> 's \<Rightarrow> (exn + or_note list) \<times> 's"
  get_notes :: "string \<Rightarrow> 's \<Rightarrow> (exn + or_note list) \<times> 's"
  sleep :: "nat \<Rightarrow> 's \<Rightarrow> 's"

section \<open>Web-scrape fallback (web_scraper.py)\<close>

definition AAAI_GITHUB_URL_TEMPLATE :: string where
  "AAAI_GITHUB_URL_TEMPLATE =
     ''https://raw.githubusercontent.com/papercopilot/paperlists/main/aaai/aaai{year}.json''"

text \<open>\<open>s.split(d)\<close> for a one-character delimiter.\<close>

fun split_on :: "char \<Rightarrow> string \<Rightarrow> string list" where
  "split_on d [] = [[]]"
| "split_on d (c # cs) =
     (if c = d then [] # split_on d cs
      else (case split_on d cs of p # ps \<Rightarrow> (c # p) # ps | [] \<Rightarrow> [[c]]))"


text \<open>\<open>int(s)\<close> on a string: surrounding blanks are dropped, a sign may come first, and
  decimal digits must follow; every other string stands for \<open>ValueError\<close> (the
  underscores Python allows between digits are not modelled). The program calls it on
  the four digits that \<open>scrape_venue\<close> matched.\<close>

definition py_int :: "string \<Rightarrow> exn + int" where
  "py_int s =
     (let t = py_strip s;
          (neg, ds) = (case t of
                         c # r \<Rightarrow> if c = CHR ''-'' then (True, r)
                                  else if c = CHR ''+'' then (False, r) else (False, t)
                       | [] \<Rightarrow> (False, t))
      in if ds \<noteq> [] \<and> list_all is_digit ds
         then Inr (if neg then - int (nat_of_digits ds) else int (nat_of_digits ds))
         else Inl (ValueError ''invalid literal for int()''))"

text \<open>\<open>for item in data\<close>: a list yields its elements, a dictionary its keys, a string
  its characters; the other values are not iterable.\<close>

fun py_iter :: "pyval \<Rightarrow> exn + pyval list" where
  "py_iter (VList xs) = Inr xs"
| "py_iter (VDict d) = Inr (map (\<lambda>kv. VStr (fst kv)) d)"
| "py_iter (VStr s) = Inr (map (\<lambda>c. VStr [c]) s)"
| "py_iter v = Inl (TypeError ''object is not iterable'')"

text \<open>\<open>response.raise_for_status()\<close>: client and server error codes raise.\<close>

definition raise_for_status :: "response \<Rightarrow> exn + unit" where
  "raise_for_status r =
     (if 400 \<le> status_code r \<and> status_code r < 600 then Inl (HTTPError ''error status'')
      else Inr ())"

text \<open>The authors of an entry: \<open>[a.strip() for a in authors_str.split(';')] if authors_str
  else []\<close>; a truthy value that is not a string has no \<open>split\<close>.\<close>

definition aaai_authors :: "pyval \<Rightarrow> exn + pyval list" where
  "aaai_authors authors_str =
     (if py_truthy authors_str
      then (case authors_str of
              VStr s \<Rightarrow> Inr (map (\<lambda>a. VStr (py_strip a)) (split_on CHR '';'' s))
            | _ \<Rightarrow> Inl (AttributeError ''object has no attribute split''))
      else Inr [])"

text \<open>One turn of the loop over the entries: the entry must be a mapping (it is asked
  \<open>.get\<close>).\<close>

definition aaai_note :: "string \<Rightarrow> pyval \<Rightarrow> exn + pydict" where
  "aaai_note year item =
     (case item of
        VDict d \<Rightarrow>
          (case aaai_authors (dict_get_default d ''author'' (VStr [])) of
             Inl e \<Rightarrow> Inl e
           | Inr authors \<Rightarrow>
               (case py_int year of
                  Inl e \<Rightarrow> Inl e
                | Inr y \<Rightarrow>
                    Inr [(''id'', dict_get_default d ''id'' (VStr ''unknown'')),
                         (''forum'', dict_get_default d ''id'' (VStr ''unknown'')),
                         (''title'', dict_get_default d ''title'' (VStr ''Untitled'')),
                         (''abstract'', dict_get_default d ''abstract'' (VStr [])),
                         (''authors'', VList authors),
                         (''keywords'', VList []),
                         (''tldr'', VStr []),
                         (''pdf'', dict_get_default d ''pdf'' (VStr [])),
                         (''venue'', VStr (''AAAI '' @ year)),
                         (''venue_id'', VStr (''AAAI.org/'' @ year @ ''/Conference'')),
                         (''year'', VInt y),
                         (''avg_score'', VNone),
                         (''max_score'', VNone),
                         (''min_score'', VNone),
                         (''scored_review_count'', VInt 0),
                         (''score_distribution'', VDict [])]))
      | _ \<Rightarrow> Inl (AttributeError ''object has no attribute get''))"

fun aaai_notes :: "string \<Rightarrow> pyval list \<Rightarrow> exn + pydict list" where
  "aaai_notes year [] = Inr []"
| "aaai_notes year (item # rest) =
     (case aaai_note year item of
        Inl e \<Rightarrow> Inl e
      | Inr n \<Rightarrow> (case aaai_notes year rest of Inl e \<Rightarrow> Inl e | Inr ns \<Rightarrow> Inr (n # ns)))"

definition aaai_url :: "string \<Rightarrow> string" where
  "aaai_url year = format_year AAAI_GITHUB_URL_TEMPLATE year"

text \<open>The body of the \<open>try\<close> block of \<open>fetch_aaai_from_github\<close>, and the function with
  its \<open>except Exception: return []\<close>.\<close>

definition fetch_aaai_try :: "'s remote \<Rightarrow> string \<Rightarrow> 's \<Rightarrow> (exn + pydict list) \<times> 's" where
  "fetch_aaai_try env year w =
     (case requests_get env (aaai_url year) w of
        (Inl e, w') \<Rightarrow> (Inl e, w')
      | (Inr resp, w') \<Rightarrow>
          if status_code resp = 404 then (Inr [], w')
          else (case raise_for_status resp of
                  Inl e \<Rightarrow> (Inl e, w')
                | Inr u \<Rightarrow>
                    (case json_body resp of
                       Inl e \<Rightarrow> (Inl e, w')
                     | Inr data \<Rightarrow>
                         (case py_iter data of
                            Inl e \<Rightarrow> (Inl e, w')
                          | Inr items \<Rightarrow> (aaai_notes year items, w')))))"

definition fetch_aaai_from_github :: "'s remote \<Rightarrow> string \<Rightarrow> 's \<Rightarrow> (exn + pydict list) \<times> 's" where
  "fetch_aaai_from_github env year w =
     (case fetch_aaai_try env year w of
        (Inl e, w') \<Rightarrow> (Inr [], w')
      | (Inr notes, w') \<Rightarrow> (Inr notes, w'))"

text \<open>\<open>re.search(r'20\d{2}', venue_id)\<close>: the first place where \<open>20\<close> and two digits
  stand.\<close>

fun re_search_year :: "string \<Rightarrow> string option" where
  "re_search_year (a # b # c # d # rest) =
     (if a = CHR ''2'' \<and> b = CHR ''0'' \<and> is_digit c \<and> is_digit d then Some [a, b, c, d]
      else re_search_year (b # c # d # rest))"
| "re_search_year s = None"

definition scrape_venue :: "'s remote \<Rightarrow> string \<Rightarrow> 's \<Rightarrow> (exn + pydict list) \<times> 's" where
  "scrape_venue env venue_id w =
     (if py_contains venue_id ''AAAI''
      then (case re_search_year venue_id of
              Some year \<Rightarrow> fetch_aaai_from_github env year w
            | None \<Rightarrow> (Inr [], w))
      else (Inr [], w))"

section \<open>Remote fetch client (openreview_client.py)\<close>

text \<open>
  The process state: the world and the module-level \<open>_client_cache\<close>, which holds at
  most the one entry \<open>'client'\<close>.
\<close>

record 's proc =
  world :: 's
  client_cache :: "client option"

definition create_client :: "'s remote \<Rightarrow> 's proc \<Rightarrow> (exn + client) \<times> 's proc" where
  "create_client env st =
     (case client_cache st of
        Some c \<Rightarrow> (Inr c, st)
      | None \<Rightarrow>
          (case new_client_v2 env (world st) of
             (Inr u, w) \<Rightarrow> (Inr ClientV2, \<lparr>world = w, client_cache = Some ClientV2\<rparr>)
           | (Inl e, w) \<Rightarrow>
               (case new_client_v1 env w of
                  (Inr u, w') \<Rightarrow> (Inr ClientV1, \<lparr>world = w', client_cache = Some ClientV1\<rparr>)
                | (Inl e', w') \<Rightarrow> (Inl e', \<lparr>world = w', client_cache = None\<rparr>))))"

text \<open>
  \<open>retry_with_backoff\<close>: \<open>retry_loop\<close> is the \<open>for attempt in range(max_retries)\<close> loop
  with the number of turns left as its recursion argument; after the last turn the
  function raises \<open>OpenReviewClientError\<close>.
\<close>

definition retry_message :: "nat \<Rightarrow> exn option \<Rightarrow> string" where
  "retry_message max_retries last_error =
     ''API failed after '' @ str_nat max_retries @ '' attempts: '' @
     (case last_error of None \<Rightarrow> ''None'' | Some e \<Rightarrow> exn_str e)"

fun retry_loop ::
  "'s remote \<Rightarrow> ('s \<Rightarrow> (exn + 'a) \<times> 's) \<Rightarrow> nat \<Rightarrow> nat \<Rightarrow> nat \<Rightarrow> nat \<Rightarrow> exn option \<Rightarrow> 's
     \<Rightarrow> (exn + 'a) \<times> 's" where
  "retry_loop env func max_retries base_delay 0 attempt last_error w =
     (Inl (OpenReviewClientError (retry_message max_retries last_error)), w)"
| "retry_loop env func max_retries base_delay (Suc k) attempt last_error w =
     (case func w of
        (Inr v, w') \<Rightarrow> (Inr v, w')
      | (Inl e, w') \<Rightarrow>
          retry_loop env func max_retries base_delay k (attempt + 1) (Some e)
            (if attempt + 1 < max_retries then sleep env (base_delay * 2 ^ attempt) w' else w'))"

definition retry_with_backoff :: "'s remote \<Rightarrow> ('s \<Rightarrow> (exn + 'a) \<times> 's) \<Rightarrow> 's \<Rightarrow> (exn + 'a) \<times> 's" where
  "retry_with_backoff env func w =
     retry_loop env func API_RETRY_MAX API_RETRY_DELAY_BASE API_RETRY_MAX 0 None w"

text \<open>
  The loop over the alternative invitations: a pattern that yields notes ends the loop,
  one that yields none or whose retries are exhausted passes to the next. Then the same
  for the three invitations on the previous API generation, without retries.
\<close>

fun alt_patterns_loop ::
  "'s remote \<Rightarrow> client \<Rightarrow> string list \<Rightarrow> or_note list \<Rightarrow> 's \<Rightarrow> or_note list \<times> 's" where
  "alt_patterns_loop env c [] notes w = (notes, w)"
| "alt_patterns_loop env c (p # ps) notes w =
     (case retry_with_backoff env (get_all_notes env c p) w of
        (Inr ns, w') \<Rightarrow> if ns \<noteq> [] then (ns, w') else alt_patterns_loop env c ps ns w'
      | (Inl e, w') \<Rightarrow> alt_patterns_loop env c ps notes w')"

definition v1_get :: "'s remote \<Rightarrow> string \<Rightarrow> 's \<Rightarrow> (exn + or_note list) \<times> 's" where
  "v1_get env p w = (if has_iterget_notes env then iterget_notes env p w else get_notes env p w)"

fun v1_patterns_loop :: "'s remote \<Rightarrow> string list \<Rightarrow> or_note list \<Rightarrow> 's \<Rightarrow> or_note list \<times> 's" where
  "v1_patterns_loop env [] notes w = (notes, w)"
| "v1_patterns_loop env (p # ps) notes w =
     (case v1_get env p w of
        (Inr ns, w') \<Rightarrow> if ns \<noteq> [] then (ns, w') else v1_patterns_loop env ps ns w'
      | (Inl e, w') \<Rightarrow> v1_patterns_loop env ps notes w')"

definition v1_patterns :: "string \<Rightarrow> string list" where
  "v1_patterns venue_id =
     [venue_id @ ''/-/Submission'', venue_id @ ''/-/Blind_Submission'', venue_id @ ''/-/Paper'']"

text \<open>The V1 fallback: the client constructor is tried a second time after an
  \<open>AttributeError\<close>; any other failure leaves the notes as they were.\<close>

definition v1_fallback :: "'s remote \<Rightarrow> string \<Rightarrow> or_note list \<Rightarrow> 's \<Rightarrow> or_note list \<times> 's" where
  "v1_fallback env venue_id notes w =
     (case new_client_v1 env w of
        (Inr u, w1) \<Rightarrow> v1_patterns_loop env (v1_patterns venue_id) notes w1
      | (Inl (AttributeError m), w1) \<Rightarrow>
          (case new_client_v1 env w1 of
             (Inr u, w2) \<Rightarrow> v1_patterns_loop env (v1_patterns venue_id) notes w2
           | (Inl e, w2) \<Rightarrow> (notes, w2))
      | (Inl e, w1) \<Rightarrow> (notes, w1))"

subsection \<open>Normalising a note into a paper\<close>

definition get_val :: "pydict \<Rightarrow> string \<Rightarrow> pyval" where
  "get_val content key = unwrap_value (dict_get content key)"

definition opt_val :: "rat option \<Rightarrow> pyval" where
  "opt_val x = (case x of None \<Rightarrow> VNone | Some r \<Rightarrow> VFloat r)"

text \<open>The entries of the statistics dictionary, in the order of its literal.\<close>

definition stats_items :: "review_stats \<Rightarrow> pydict" where
  "stats_items st =
     [(''review_count'', VInt (int (review_count st))),
      (''scored_review_count'', VInt (int (scored_review_count st))),
      (''scores'', VList (map VFloat (scores st))),
      (''confidences'', VList (map VFloat (confidences st))),
      (''max_score'', opt_val (max_score st)),
      (''min_score'', opt_val (min_score st)),
      (''avg_score'', opt_val (avg_score st)),
      (''avg_confidence'', opt_val (avg_confidence st))]"

text \<open>\<open>{..., **d}\<close> and \<open>paper[k] = v\<close>: an existing key keeps its place, a new one goes to
  the end.\<close>

definition dict_update_all :: "pydict \<Rightarrow> pydict \<Rightarrow> pydict" where
  "dict_update_all base d = foldl (\<lambda>acc kv. AList.update (fst kv) (snd kv) acc) base d"

definition base_url :: string where
  "base_url = ''https://openreview.net''"

definition note_replies :: "or_note \<Rightarrow> reply list" where
  "note_replies n = (case note_details n of Some (Some rs) \<Rightarrow> rs | _ \<Rightarrow> [])"

text \<open>The PDF link: a truthy \<open>pdf\<close> is asked \<open>.startswith("http")\<close>, which only a string
  has.\<close>

definition pdf_url_of :: "pyval \<Rightarrow> exn + pyval" where
  "pdf_url_of pdf =
     (if py_truthy pdf
      then (case pdf of
              VStr s \<Rightarrow> Inr (if \<not> startswith s ''http'' then VStr (base_url @ s) else pdf)
            | _ \<Rightarrow> Inl (AttributeError ''object has no attribute startswith''))
      else Inr pdf)"

definition note_paper :: "(pyval \<Rightarrow> string) \<Rightarrow> string \<Rightarrow> or_note \<Rightarrow> exn + pydict" where
  "note_paper sf venue_id n =
     (let content = (case note_content n of Some c \<Rightarrow> c | None \<Rightarrow> []);
          replies = note_replies n
      in case extract_scores_from_replies sf replies of
           Inl e \<Rightarrow> Inl e
         | Inr score_stats \<Rightarrow>
             (let forum = (case note_forum n of Some f \<Rightarrow> f | None \<Rightarrow> note_id n);
                  paper = dict_update_all
                    [(''id'', VStr (note_id n)),
                     (''forum'', VStr forum),
                     (''title'', py_or (get_val content ''title'') (VStr ''Untitled'')),
                     (''abstract'', py_or (get_val content ''abstract'') (VStr [])),
                     (''authors'', py_or (get_val content ''authors'') (VList [])),
                     (''keywords'', py_or (get_val content ''keywords'') (VList [])),
                     (''tldr'', py_or (py_or (get_val content ''TL;DR'') (get_val content ''tldr'')) (VStr [])),
                     (''pdf'', py_or (get_val content ''pdf'') (VStr [])),
                     (''venue_id'', VStr venue_id)]
                    (stats_items score_stats);
                  paper = AList.update ''openreview_url'' (VStr (base_url @ ''/forum?id='' @ forum)) paper
              in case pdf_url_of (dict_get paper ''pdf'') of
                   Inl e \<Rightarrow> Inl e
                 | Inr u \<Rightarrow> Inr (AList.update ''pdf_url'' u paper)))"

fun papers_loop :: "(pyval \<Rightarrow> string) \<Rightarrow> string \<Rightarrow> or_note list \<Rightarrow> exn + pydict list" where
  "papers_loop sf venue_id [] = Inr []"
| "papers_loop sf venue_id (n # rest) =
     (case note_paper sf venue_id n of
        Inl e \<Rightarrow> Inl e
      | Inr p \<Rightarrow> (case papers_loop sf venue_id rest of Inl e \<Rightarrow> Inl e | Inr ps \<Rightarrow> Inr (p # ps)))"

text \<open>The status line. \<open>scored_review_count\<close> of a paper built above is always an
  integer.\<close>

definition has_scored_review :: "pydict \<Rightarrow> bool" where
  "has_scored_review p =
     (case dict_get_default p ''scored_review_count'' (VInt 0) of VInt k \<Rightarrow> k > 0 | _ \<Rightarrow> False)"

definition fetched_status :: "pydict list \<Rightarrow> string" where
  "fetched_status papers =
     ''Fetched '' @ str_nat (length papers) @ '' papers ('' @
     str_nat (length (filter has_scored_review papers)) @ '' with reviews)''"

subsection \<open>\<open>fetch_submissions_with_reviews\<close>\<close>

text \<open>
  \<open>fetch_try\<close> is the body of the \<open>try\<close> block; an exception of the first request leaves
  it at once. \<open>fetch_submissions_with_reviews\<close> first delegates a venue whose
  configuration has the source \<open>web\<close> and whose name occurs in the identifier, then
  creates the client, outside the \<open>try\<close>, and turns an exception of the block into an
  empty list with an error status. The result cache of the \<open>st.cache_data\<close> decorator
  is not modelled.
\<close>

definition fetch_try ::
  "(pyval \<Rightarrow> string) \<Rightarrow> 's remote \<Rightarrow> client \<Rightarrow> string \<Rightarrow> 's \<Rightarrow> (exn + pydict list \<times> string) \<times> 's" where
  "fetch_try sf env c venue_id w =
     (case retry_with_backoff env (get_all_notes env c (venue_id @ ''/-/Submission'')) w of
        (Inl e, w1) \<Rightarrow> (Inl e, w1)
      | (Inr notes, w1) \<Rightarrow>
          (let (notes, w2) =
                 (if notes = []
                  then alt_patterns_loop env c
                         [venue_id @ ''/-/Blind_Submission'', venue_id @ ''/-/Paper''] notes w1
                  else (notes, w1));
               (notes, w3) =
                 (if notes = [] then v1_fallback env venue_id notes w2 else (notes, w2))
           in case papers_loop sf venue_id notes of
                Inl e \<Rightarrow> (Inl e, w3)
              | Inr papers \<Rightarrow> (Inr (papers, fetched_status papers), w3)))"

definition web_source_match :: "string \<Rightarrow> bool" where
  "web_source_match venue_id =
     list_ex (\<lambda>kc. source (snd kc) = Some ''web'' \<and> py_contains venue_id (fst kc)) VENUE_MAPPINGS"

definition fetch_submissions_with_reviews ::
  "(pyval \<Rightarrow> string) \<Rightarrow> 's remote \<Rightarrow> string \<Rightarrow> 's proc \<Rightarrow> (exn + pydict list \<times> string) \<times> 's proc" where
  "fetch_submissions_with_reviews sf env venue_id st =
     (if web_source_match venue_id
      then (case scrape_venue env venue_id (world st) of
              (Inl e, w) \<Rightarrow> (Inl e, st\<lparr>world := w\<rparr>)
            | (Inr papers, w) \<Rightarrow> (Inr (papers, []), st\<lparr>world := w\<rparr>))
      else (case create_client env st of
              (Inl e, st1) \<Rightarrow> (Inl e, st1)
            | (Inr c, st1) \<Rightarrow>
                (case fetch_try sf env c venue_id (world st1) of
                   (Inl e, w) \<Rightarrow> (Inr ([], ''Error: '' @ exn_str e), st1\<lparr>world := w\<rparr>)
                 | (Inr r, w) \<Rightarrow> (Inr r, st1\<lparr>world := w\<rparr>))))"



section \<open>Example worlds\<close>

text \<open>
  Concrete worlds for evaluating the model. In \<open>offline_remote\<close> every remote
  operation raises. \<open>aaai_remote\<close> serves the community dataset for 2025, one entry
  long, and answers 404 for every other address. \<open>filed_remote inv\<close> has one submission,
  filed under the invitation \<open>inv\<close>; its world state is the list of the invitations
  requested so far. \<open>blind_remote\<close> files it under the \<open>Blind_Submission\<close> invitation of
  the venue \<open>Venue.cc/2020/Conference\<close>.
\<close>

definition offline_remote :: "unit remote" where
  "offline_remote =
     \<lparr>requests_get = (\<lambda>url w. (Inl (RemoteError ''offline''), w)),
      new_client_v2 = (\<lambda>w. (Inl (RemoteError ''offline''), w)),
      new_client_v1 = (\<lambda>w. (Inl (RemoteError ''offline''), w)),
      get_all_notes = (\<lambda>c inv w. (Inl (RemoteError ''offline''), w)),
      has_iterget_notes = True,
      iterget_notes = (\<lambda>inv w. (Inl (RemoteError ''offline''), w)),
      get_notes = (\<lambda>inv w. (Inl (RemoteError ''offline''), w)),
      sleep = (\<lambda>n w. w)\<rparr>"




definition blind_note :: or_note where
  "blind_note =
     \<lparr>note_id = ''abc'', note_forum = None,
      note_content = Some [(''title'', VDict [(''value'', VStr ''A Title'')]),
                           (''pdf'', VDict [(''value'', VStr ''/pdf/abc.pdf'')])],
      note_details = Some (Some [\<lparr>reply_content =
         Some [(''rating'', VDict [(''value'', VStr ''6: Strong Accept'')])]\<rparr>])\<rparr>"

definition filed_remote :: "string \<Rightarrow> string list remote" where
  "filed_remote filed =
     \<lparr>requests_get = (\<lambda>url w. (Inl (RemoteError ''offline''), w)),
      new_client_v2 = (\<lambda>w. (Inr (), w)),
      new_client_v1 = (\<lambda>w. (Inr (), w)),
      get_all_notes = (\<lambda>c inv w. (Inr (if inv = filed then [blind_note] else []), w @ [inv])),
      has_iterget_notes = True,
      iterget_notes = (\<lambda>inv w. (Inr [], w @ [inv])),
      get_notes = (\<lambda>inv w. (Inr [], w @ [inv])),
      sleep = (\<lambda>n w. w)\<rparr>"

definition blind_remote :: "string list remote" where
  "blind_remote = filed_remote ''Venue.cc/2020/Conference/-/Blind_Submission''"

definition blind_paper :: pydict where
  "blind_paper =
     [(''id'', VStr ''abc''), (''forum'', VStr ''abc''), (''title'', VStr ''A Title''),
      (''abstract'', VStr []), (''authors'', VList []), (''keywords'', VList []),
      (''tldr'', VStr []), (''pdf'', VStr ''/pdf/abc.pdf''),
      (''venue_id'', VStr ''Venue.cc/2020/Conference''), (''review_count'', VInt 1),
      (''scored_review_count'', VInt 1), (''scores'', VList [VFloat 6]),
      (''confidences'', VList []), (''max_score'', VFloat 6), (''min_score'', VFloat 6),
      (''avg_score'', VFloat 6), (''avg_confidence'', VNone),
      (''openreview_url'', VStr ''https://openreview.net/forum?id=abc''),
      (''pdf_url'', VStr ''https://openreview.net/pdf/abc.pdf'')]"

section \<open>Properties of the score parser\<close>

subsection \<open>The pattern search finds the first number literal\<close>







lemma not_digit_dot [simp]: "\<not> is_digit CHR ''.''" and not_digit_minus [simp]: "\<not> is_digit CHR ''-''"
  by (simp_all add: is_digit_def)



























subsection \<open>The parser\<close>




section \<open>Properties of the venue resolver\<close>

subsection \<open>Case folding and stripping\<close>








subsection \<open>The resolver\<close>








text \<open>
  C7. \<open>get_venue_id_candidates "nips" 2023\<close> and \<open>get_venue_id_candidates "NeurIPS" 2023\<close>
  are the same list, and in it the current pattern \<open>NeurIPS.cc/2023/Conference\<close> comes
  before the legacy pattern \<open>NIPS.cc/2023/Conference\<close>.
\<close>

theorem get_venue_id_candidates_nips:
  "get_venue_id_candidates ''nips'' 2023 = get_venue_id_candidates ''NeurIPS'' 2023 \<and>
   get_venue_id_candidates ''nips'' 2023 =
     [''NeurIPS.cc/2023/Conference'', ''NIPS.cc/2023/Conference'']"
  by code_simp

section \<open>Properties of the review statistics\<close>
















subsection \<open>Field priority\<close>













section \<open>Properties of the web-scrape fallback\<close>






lemma fetch_aaai_from_github_total:
  "\<exists>papers w'. fetch_aaai_from_github env year w = (Inr papers, w')"
  unfolding fetch_aaai_from_github_def
  by (cases "fetch_aaai_try env year w"; cases "fst (fetch_aaai_try env year w)") auto

lemma scrape_venue_total:
  "\<exists>papers w'. scrape_venue env venue_id w = (Inr papers, w')"
  unfolding scrape_venue_def
  using fetch_aaai_from_github_total by (auto split: option.splits)



lemma fetch_aaai_request_failure:
  "requests_get env (aaai_url year) w = (Inl e, w') \<Longrightarrow>
   fetch_aaai_from_github env year w = (Inr [], w')"
  by (simp add: fetch_aaai_from_github_def fetch_aaai_try_def)















section \<open>Properties of the remote fetch client\<close>

subsection \<open>Naming conventions\<close>

lemma papers_loop_length: "papers_loop sf vid ns = Inr ps \<Longrightarrow> length ps = length ns"
  by (induction ns arbitrary: ps) (auto split: sum.splits)


lemma fetch_try_from_notes:
  assumes "retry_with_backoff env (get_all_notes env c (venue_id @ ''/-/Submission'')) w = (Inr ns0, w1)"
    and "(if ns0 = []
          then alt_patterns_loop env c
                 [venue_id @ ''/-/Blind_Submission'', venue_id @ ''/-/Paper''] ns0 w1
          else (ns0, w1)) = (ns, w2)"
    and "ns \<noteq> []"
  shows "fetch_try sf env c venue_id w =
           (case papers_loop sf venue_id ns of
              Inl e \<Rightarrow> (Inl e, w2)
            | Inr papers \<Rightarrow> (Inr (papers, fetched_status papers), w2))"
  using assms unfolding fetch_try_def by (simp add: Let_def)

lemma fetch_api_result:
  assumes "\<not> web_source_match venue_id"
    and "create_client env st = (Inr c, st1)"
    and "fetch_try sf env c venue_id (world st1) = (Inr r, w)"
  shows "fetch_submissions_with_reviews sf env venue_id st = (Inr r, st1\<lparr>world := w\<rparr>)"
  using assms by (simp add: fetch_submissions_with_reviews_def)

lemma fetch_submission_first:
  assumes nw: "\<not> web_source_match venue_id"
    and cc: "create_client env st = (Inr c, st1)"
    and s1: "retry_with_backoff env (get_all_notes env c (venue_id @ ''/-/Submission'')) (world st1)
               = (Inr ns, w1)"
    and ne: "ns \<noteq> []"
    and pl: "papers_loop sf venue_id ns = Inr papers"
  shows "fetch_submissions_with_reviews sf env venue_id st =
           (Inr (papers, fetched_status papers), st1\<lparr>world := w1\<rparr>)"
proof -
  have "fetch_try sf env c venue_id (world st1) = (Inr (papers, fetched_status papers), w1)"
    using fetch_try_from_notes[OF s1, of ns w1 sf] ne pl by simp
  then show ?thesis by (rule fetch_api_result[OF nw cc])
qed

lemma fetch_blind_second:
  assumes nw: "\<not> web_source_match venue_id"
    and cc: "create_client env st = (Inr c, st1)"
    and s1: "retry_with_backoff env (get_all_notes env c (venue_id @ ''/-/Submission'')) (world st1)
               = (Inr [], w1)"
    and s2: "retry_with_backoff env (get_all_notes env c (venue_id @ ''/-/Blind_Submission'')) w1
               = (Inr ns, w2)"
    and ne: "ns \<noteq> []"
    and pl: "papers_loop sf venue_id ns = Inr papers"
  shows "fetch_submissions_with_reviews sf env venue_id st =
           (Inr (papers, fetched_status papers), st1\<lparr>world := w2\<rparr>)"
proof -
  have "alt_patterns_loop env c
          [venue_id @ ''/-/Blind_Submission'', venue_id @ ''/-/Paper''] [] w1 = (ns, w2)"
    using s2 ne by simp
  then have "fetch_try sf env c venue_id (world st1) = (Inr (papers, fetched_status papers), w2)"
    using fetch_try_from_notes[OF s1, of ns w2 sf] ne pl by simp
  then show ?thesis by (rule fetch_api_result[OF nw cc])
qed

lemma fetch_paper_third:
  assumes nw: "\<not> web_source_match venue_id"
    and cc: "create_client env st = (Inr c, st1)"
    and s1: "retry_with_backoff env (get_all_notes env c (venue_id @ ''/-/Submission'')) (world st1)
               = (Inr [], w1)"
    and s2: "retry_with_backoff env (get_all_notes env c (venue_id @ ''/-/Blind_Submission'')) w1
               = (r2, w2)"
    and r2: "r2 = Inr [] \<or> (\<exists>e. r2 = Inl e)"
    and s3: "retry_with_backoff env (get_all_notes env c (venue_id @ ''/-/Paper'')) w2
               = (Inr ns, w3)"
    and ne: "ns \<noteq> []"
    and pl: "papers_loop sf venue_id ns = Inr papers"
  shows "fetch_submissions_with_reviews sf env venue_id st =
           (Inr (papers, fetched_status papers), st1\<lparr>world := w3\<rparr>)"
proof -
  have "alt_patterns_loop env c
          [venue_id @ ''/-/Blind_Submission'', venue_id @ ''/-/Paper''] [] w1 = (ns, w3)"
    using s2 r2 s3 ne by auto
  then have "fetch_try sf env c venue_id (world st1) = (Inr (papers, fetched_status papers), w3)"
    using fetch_try_from_notes[OF s1, of ns w3 sf] ne pl by simp
  then show ?thesis by (rule fetch_api_result[OF nw cc])
qed

lemma retry_first_success:
  "func w = (Inr v, w') \<Longrightarrow> retry_with_backoff env func w = (Inr v, w')"
  by (simp add: retry_with_backoff_def API_RETRY_MAX_def numeral_3_eq_3)

lemma venue_not_web: "\<not> web_source_match ''Venue.cc/2020/Conference''"
  by code_simp

lemma iclr_not_web: "\<not> web_source_match ''ICLR.cc/2024/Conference''"
  by code_simp


lemma filed_create_client:
  "create_client (filed_remote f) \<lparr>world = [], client_cache = None\<rparr> =
     (Inr ClientV2, \<lparr>world = [], client_cache = Some ClientV2\<rparr>)"
  by (simp add: create_client_def filed_remote_def)

lemma filed_retry:
  "retry_with_backoff (filed_remote f) (get_all_notes (filed_remote f) c i) w =
     (Inr (if i = f then [blind_note] else []), w @ [i])"
  by (rule retry_first_success) (simp add: filed_remote_def)

lemma blind_note_paper:
  "note_paper (\<lambda>_. []) ''Venue.cc/2020/Conference'' blind_note = Inr blind_paper"
  by code_simp

lemma blind_papers_loop:
  "papers_loop (\<lambda>_. []) ''Venue.cc/2020/Conference'' [blind_note] = Inr [blind_paper]"
  by (simp add: blind_note_paper)

lemma blind_status: "fetched_status [blind_paper] = ''Fetched 1 papers (1 with reviews)''"
  by code_simp

text \<open>
  C5, as amended. For a collection identifier that is not delegated to the web source,
  once the client is there, and for records that all normalise into papers: when the
  \<open>Submission\<close> invitation yields no record and \<open>Blind_Submission\<close> yields records, the
  fetch returns the papers of those records, one per record and so not an empty list,
  and the world is left as the \<open>Blind_Submission\<close> request left it: nothing is
  requested after it. When \<open>Submission\<close> itself yields records they are the result and
  nothing else is requested; \<open>Paper\<close> is requested, and gives the result, only after
  \<open>Submission\<close> came back empty and \<open>Blind_Submission\<close> came back empty or failed.
\<close>

theorem fetch_naming_convention_order:
  assumes nw: "\<not> web_source_match venue_id"
    and cc: "create_client env st = (Inr c, st1)"
    and ne: "ns \<noteq> []"
    and pl: "papers_loop sf venue_id ns = Inr papers"
  shows
    "(retry_with_backoff env (get_all_notes env c (venue_id @ ''/-/Submission'')) (world st1)
        = (Inr [], w1) \<and>
      retry_with_backoff env (get_all_notes env c (venue_id @ ''/-/Blind_Submission'')) w1
        = (Inr ns, w2) \<longrightarrow>
      fetch_submissions_with_reviews sf env venue_id st =
        (Inr (papers, fetched_status papers), st1\<lparr>world := w2\<rparr>) \<and>
      papers \<noteq> [] \<and> length papers = length ns) \<and>
     (retry_with_backoff env (get_all_notes env c (venue_id @ ''/-/Submission'')) (world st1)
        = (Inr ns, w1) \<longrightarrow>
      fetch_submissions_with_reviews sf env venue_id st =
        (Inr (papers, fetched_status papers), st1\<lparr>world := w1\<rparr>)) \<and>
     (retry_with_backoff env (get_all_notes env c (venue_id @ ''/-/Submission'')) (world st1)
        = (Inr [], w1) \<and>
      retry_with_backoff env (get_all_notes env c (venue_id @ ''/-/Blind_Submission'')) w1
        = (r2, w2) \<and> (r2 = Inr [] \<or> (\<exists>e. r2 = Inl e)) \<and>
      retry_with_backoff env (get_all_notes env c (venue_id @ ''/-/Paper'')) w2
        = (Inr ns, w3) \<longrightarrow>
      fetch_submissions_with_reviews sf env venue_id st =
        (Inr (papers, fetched_status papers), st1\<lparr>world := w3\<rparr>))"
proof -
  have len: "length papers = length ns" using pl by (rule papers_loop_length)
  then have pne: "papers \<noteq> []" using ne by auto
  have a: "retry_with_backoff env (get_all_notes env c (venue_id @ ''/-/Submission'')) (world st1)
        = (Inr [], w1) \<and>
      retry_with_backoff env (get_all_notes env c (venue_id @ ''/-/Blind_Submission'')) w1
        = (Inr ns, w2) \<longrightarrow>
      fetch_submissions_with_reviews sf env venue_id st =
        (Inr (papers, fetched_status papers), st1\<lparr>world := w2\<rparr>) \<and>
      papers \<noteq> [] \<and> length papers = length ns"
    using fetch_blind_second[OF nw cc _ _ ne pl] len pne by simp
  have b: "retry_with_backoff env (get_all_notes env c (venue_id @ ''/-/Submission'')) (world st1)
        = (Inr ns, w1) \<longrightarrow>
      fetch_submissions_with_reviews sf env venue_id st =
        (Inr (papers, fetched_status papers), st1\<lparr>world := w1\<rparr>)"
    using fetch_submission_first[OF nw cc _ ne pl] by simp
  have c: "retry_with_backoff env (get_all_notes env c (venue_id @ ''/-/Submission'')) (world st1)
        = (Inr [], w1) \<and>
      retry_with_backoff env (get_all_notes env c (venue_id @ ''/-/Blind_Submission'')) w1
        = (r2, w2) \<and> (r2 = Inr [] \<or> (\<exists>e. r2 = Inl e)) \<and>
      retry_with_backoff env (get_all_notes env c (venue_id @ ''/-/Paper'')) w2
        = (Inr ns, w3) \<longrightarrow>
      fetch_submissions_with_reviews sf env venue_id st =
        (Inr (papers, fetched_status papers), st1\<lparr>world := w3\<rparr>)"
    using fetch_paper_third[OF nw cc _ _ _ _ ne pl] by blast
  show ?thesis by (rule conjI[OF a conjI[OF b c]])
qed

theorem fetch_naming_convention_order_witness:
  "fetch_submissions_with_reviews (\<lambda>_. []) blind_remote ''Venue.cc/2020/Conference''
     \<lparr>world = [], client_cache = None\<rparr> =
     (Inr ([blind_paper], ''Fetched 1 papers (1 with reviews)''),
      \<lparr>world = [''Venue.cc/2020/Conference/-/Submission'',
                ''Venue.cc/2020/Conference/-/Blind_Submission''],
       client_cache = Some ClientV2\<rparr>) \<and>
   fetch_submissions_with_reviews (\<lambda>_. [])
     (filed_remote ''Venue.cc/2020/Conference/-/Submission'') ''Venue.cc/2020/Conference''
     \<lparr>world = [], client_cache = None\<rparr> =
     (Inr ([blind_paper], ''Fetched 1 papers (1 with reviews)''),
      \<lparr>world = [''Venue.cc/2020/Conference/-/Submission''], client_cache = Some ClientV2\<rparr>) \<and>
   fetch_submissions_with_reviews (\<lambda>_. [])
     (filed_remote ''Venue.cc/2020/Conference/-/Paper'') ''Venue.cc/2020/Conference''
     \<lparr>world = [], client_cache = None\<rparr> =
     (Inr ([blind_paper], ''Fetched 1 papers (1 with reviews)''),
      \<lparr>world = [''Venue.cc/2020/Conference/-/Submission'',
                ''Venue.cc/2020/Conference/-/Blind_Submission'',
                ''Venue.cc/2020/Conference/-/Paper''],
       client_cache = Some ClientV2\<rparr>)"
proof -
  have ne: "[blind_note] \<noteq> []" by simp
  have 1: "fetch_submissions_with_reviews (\<lambda>_. []) blind_remote ''Venue.cc/2020/Conference''
     \<lparr>world = [], client_cache = None\<rparr> =
     (Inr ([blind_paper], ''Fetched 1 papers (1 with reviews)''),
      \<lparr>world = [''Venue.cc/2020/Conference/-/Submission'',
                ''Venue.cc/2020/Conference/-/Blind_Submission''],
       client_cache = Some ClientV2\<rparr>)"
    using fetch_naming_convention_order[OF venue_not_web
        filed_create_client[of "''Venue.cc/2020/Conference/-/Blind_Submission''"] ne blind_papers_loop,
        where ?w1.0 = "[''Venue.cc/2020/Conference/-/Submission'']"
        and ?w2.0 = "[''Venue.cc/2020/Conference/-/Submission'',
                      ''Venue.cc/2020/Conference/-/Blind_Submission'']"]
    by (simp add: filed_retry blind_status blind_remote_def)
  have 2: "fetch_submissions_with_reviews (\<lambda>_. [])
     (filed_remote ''Venue.cc/2020/Conference/-/Submission'') ''Venue.cc/2020/Conference''
     \<lparr>world = [], client_cache = None\<rparr> =
     (Inr ([blind_paper], ''Fetched 1 papers (1 with reviews)''),
      \<lparr>world = [''Venue.cc/2020/Conference/-/Submission''], client_cache = Some ClientV2\<rparr>)"
    using fetch_naming_convention_order[OF venue_not_web
        filed_create_client[of "''Venue.cc/2020/Conference/-/Submission''"] ne blind_papers_loop,
        where ?w1.0 = "[''Venue.cc/2020/Conference/-/Submission'']"]
    by (simp add: filed_retry blind_status)
  have 3: "fetch_submissions_with_reviews (\<lambda>_. [])
     (filed_remote ''Venue.cc/2020/Conference/-/Paper'') ''Venue.cc/2020/Conference''
     \<lparr>world = [], client_cache = None\<rparr> =
     (Inr ([blind_paper], ''Fetched 1 papers (1 with reviews)''),
      \<lparr>world = [''Venue.cc/2020/Conference/-/Submission'',
                ''Venue.cc/2020/Conference/-/Blind_Submission'',
                ''Venue.cc/2020/Conference/-/Paper''],
       client_cache = Some ClientV2\<rparr>)"
    using fetch_naming_convention_order[OF venue_not_web
        filed_create_client[of "''Venue.cc/2020/Conference/-/Paper''"] ne blind_papers_loop,
        where ?w1.0 = "[''Venue.cc/2020/Conference/-/Submission'']"
        and ?r2.0 = "Inr []"
        and ?w2.0 = "[''Venue.cc/2020/Conference/-/Submission'',
                      ''Venue.cc/2020/Conference/-/Blind_Submission'']"
        and ?w3.0 = "[''Venue.cc/2020/Conference/-/Submission'',
                      ''Venue.cc/2020/Conference/-/Blind_Submission'',
                      ''Venue.cc/2020/Conference/-/Paper'']"]
    by (simp add: filed_retry blind_status)
  show ?thesis by (rule conjI[OF 1 conjI[OF 2 3]])
qed

lemma aaai_2020_web: "web_source_match ''AAAI.org/2020/Conference''"
  by code_simp

lemma aaai_2020_gate:
  "py_contains ''AAAI.org/2020/Conference'' ''AAAI'' \<and>
   re_search_year ''AAAI.org/2020/Conference'' = Some ''2020''"
  by code_simp

text \<open>
  C5 as stated fails: for the identifier \<open>AAAI.org/2020/Conference\<close>, in a world where the
  \<open>Submission\<close> invitation yields no record and \<open>Blind_Submission\<close> yields one, the fetch
  is delegated to the web-scrape fallback, requests no invitation and returns an empty
  list.
\<close>

theorem fetch_web_delegation_counterexample:
  "retry_with_backoff (filed_remote ''AAAI.org/2020/Conference/-/Blind_Submission'')
     (get_all_notes (filed_remote ''AAAI.org/2020/Conference/-/Blind_Submission'') ClientV2
        ''AAAI.org/2020/Conference/-/Submission'') [] =
     (Inr [], [''AAAI.org/2020/Conference/-/Submission'']) \<and>
   retry_with_backoff (filed_remote ''AAAI.org/2020/Conference/-/Blind_Submission'')
     (get_all_notes (filed_remote ''AAAI.org/2020/Conference/-/Blind_Submission'') ClientV2
        ''AAAI.org/2020/Conference/-/Blind_Submission'')
     [''AAAI.org/2020/Conference/-/Submission''] =
     (Inr [blind_note], [''AAAI.org/2020/Conference/-/Submission'',
                         ''AAAI.org/2020/Conference/-/Blind_Submission'']) \<and>
   fetch_submissions_with_reviews (\<lambda>_. [])
     (filed_remote ''AAAI.org/2020/Conference/-/Blind_Submission'') ''AAAI.org/2020/Conference''
     \<lparr>world = [], client_cache = None\<rparr> =
     (Inr ([], []), \<lparr>world = [], client_cache = None\<rparr>)"
proof -
  have "scrape_venue (filed_remote ''AAAI.org/2020/Conference/-/Blind_Submission'')
          ''AAAI.org/2020/Conference'' [] = (Inr [], [])"
    using aaai_2020_gate
    by (simp add: scrape_venue_def fetch_aaai_from_github_def fetch_aaai_try_def filed_remote_def)
  then have "fetch_submissions_with_reviews (\<lambda>_. [])
     (filed_remote ''AAAI.org/2020/Conference/-/Blind_Submission'') ''AAAI.org/2020/Conference''
     \<lparr>world = [], client_cache = None\<rparr> =
     (Inr ([], []), \<lparr>world = [], client_cache = None\<rparr>)"
    using aaai_2020_web by (simp add: fetch_submissions_with_reviews_def)
  then show ?thesis by (simp add: filed_retry)
qed

subsection \<open>Exceptions\<close>

text \<open>
  An exception leaves \<open>fetch_submissions_with_reviews\<close> exactly when the identifier is
  not delegated to the web source and \<open>create_client\<close>, which is called before the
  \<open>try\<close> block, raises.
\<close>

lemma fetch_raises_iff:
  "(\<exists>e st'. fetch_submissions_with_reviews sf env venue_id st = (Inl e, st')) \<longleftrightarrow>
   \<not> web_source_match venue_id \<and> (\<exists>e st'. create_client env st = (Inl e, st'))"
proof (cases "web_source_match venue_id")
  case True
  obtain papers w' where "scrape_venue env venue_id (world st) = (Inr papers, w')"
    using scrape_venue_total[of env venue_id "world st"] by auto
  then show ?thesis using True by (simp add: fetch_submissions_with_reviews_def)
next
  case False
  obtain r st1 where cc: "create_client env st = (r, st1)" by (cases "create_client env st")
  show ?thesis
  proof (cases r)
    case (Inl e)
    then show ?thesis using False cc by (simp add: fetch_submissions_with_reviews_def)
  next
    case (Inr c)
    obtain r' w where ft: "fetch_try sf env c venue_id (world st1) = (r', w)"
      by (cases "fetch_try sf env c venue_id (world st1)")
    show ?thesis using False cc Inr ft
      by (cases r') (simp_all add: fetch_submissions_with_reviews_def)
  qed
qed

lemma offline_create_client:
  "create_client offline_remote \<lparr>world = (), client_cache = None\<rparr> =
     (Inl (RemoteError ''offline''), \<lparr>world = (), client_cache = None\<rparr>)"
  by (simp add: create_client_def offline_remote_def)

text \<open>
  C1 fails on the code. With an empty client cache and both client constructors
  raising, the exception of the second constructor leaves \<open>create_client\<close> and, the call
  standing outside the \<open>try\<close> block, leaves \<open>fetch_submissions_with_reviews\<close> as well:
  the caller gets an exception instead of an empty list and an error status.
\<close>

theorem fetch_propagates_client_failure:
  "fetch_submissions_with_reviews (\<lambda>_. []) offline_remote ''ICLR.cc/2024/Conference''
     \<lparr>world = (), client_cache = None\<rparr> =
     (Inl (RemoteError ''offline''), \<lparr>world = (), client_cache = None\<rparr>)"
  using iclr_not_web offline_create_client
  by (simp add: fetch_submissions_with_reviews_def)

subsection \<open>The shape of a paper\<close>













end
